theory Spec2Isabelle
  imports Complex_Main "HOL-Library.Sublist"
begin

section \<open>Python values\<close>

text \<open>
  A Python \<open>str\<close> is a sequence of Unicode code points, so a string is a list of code
  points (natural numbers); \<open>ascii\<close> turns an ASCII literal into one. The values that
  \<open>json.load\<close> produces are \<open>None\<close>, booleans, integers, floats, strings, lists and
  dictionaries. A dictionary is the association list of its items, each key once, read
  with \<open>map_of\<close>.
  A Python float is modelled by the rational number it stands for: the model has no
  rounding error, no overflow and no NaN or infinity.
\<close>

type_synonym ustr = "nat list"

definition ascii :: "string \<Rightarrow> ustr" where
  "ascii s = map of_char s"

datatype json =
    JNull
  | JBool bool
  | JInt int
  | JFloat rat
  | JStr ustr
  | JArr "json list"
  | JObj "(ustr \<times> json) list"

type_synonym dict = "(ustr \<times> json) list"

text \<open>\<open>d.get(k, dflt)\<close>; \<open>d.get(k)\<close> is \<open>dict_get d k JNull\<close>.\<close>

definition dict_get :: "dict \<Rightarrow> ustr \<Rightarrow> json \<Rightarrow> json" where
  "dict_get d k dflt = (case map_of d k of None \<Rightarrow> dflt | Some v \<Rightarrow> v)"

text \<open>The exceptions of the model are all subclasses of \<open>Exception\<close>; the string is \<open>str(e)\<close>.\<close>

datatype exn_kind = FileNotFoundError | IndexError | TypeError | AttributeError | OtherException

datatype exn = Exn exn_kind ustr

fun exn_msg :: "exn \<Rightarrow> ustr" where
  "exn_msg (Exn k m) = m"

fun type_name :: "json \<Rightarrow> ustr" where
  "type_name JNull = ascii ''NoneType''"
| "type_name (JBool b) = ascii ''bool''"
| "type_name (JInt i) = ascii ''int''"
| "type_name (JFloat q) = ascii ''float''"
| "type_name (JStr s) = ascii ''str''"
| "type_name (JArr xs) = ascii ''list''"
| "type_name (JObj d) = ascii ''dict''"

definition no_attribute_get :: "json \<Rightarrow> exn" where
  "no_attribute_get v =
     Exn AttributeError
       ([39] @ type_name v @ [39] @ ascii '' object has no attribute '' @ [39] @ ascii ''get'' @ [39])"

subsection \<open>Strings\<close>

text \<open>\<open>s.replace(old, new)\<close>: the occurrences of \<open>old\<close> are found from the left and do not overlap.\<close>

function py_replace :: "ustr \<Rightarrow> ustr \<Rightarrow> ustr \<Rightarrow> ustr" where
  "py_replace [] old new = (if old = [] then new else [])"
| "py_replace (c # cs) old new =
     (if old = [] then new @ c # py_replace cs old new
      else if prefix old (c # cs) then new @ py_replace (drop (length old) (c # cs)) old new
      else c # py_replace cs old new)"
  by pat_completeness auto
termination
  by (relation "measure (\<lambda>(s, old, new). length s)") auto

text \<open>\<open>str(n)\<close> for an integer: its decimal digits.\<close>

fun digits :: "nat \<Rightarrow> ustr" where
  "digits n = (if n < 10 then [48 + n] else digits (n div 10) @ [48 + n mod 10])"

declare digits.simps [simp del]

text \<open>
  \<open>str(v)\<close>. The text of a float, a list or a dictionary is computed by the interpreter
  (\<open>repr\<close>) and is a parameter here.
\<close>

fun py_str :: "(json \<Rightarrow> ustr) \<Rightarrow> json \<Rightarrow> ustr" where
  "py_str other (JStr s) = s"
| "py_str other JNull = ascii ''None''"
| "py_str other (JBool b) = (if b then ascii ''True'' else ascii ''False'')"
| "py_str other (JInt i) = (if i < 0 then ascii ''-'' @ digits (nat (- i)) else digits (nat i))"
| "py_str other v = other v"

section \<open>The judge client\<close>

text \<open>
  The remote judge is outside the repository. A request carries the arguments of
  \<open>client.chat.completions.create\<close>; a response is the list of its choices, each the
  \<open>message.content\<close> of the choice (\<open>None\<close> when the judge sent no text). The call
  reads and changes a world \<open>'w\<close> and either raises or returns a response.
  \<open>json.loads\<close> is the library's parser and is a parameter as well.
\<close>

record request =
  req_model :: ustr
  req_system :: ustr
  req_user :: ustr
  req_temperature :: int
  req_json_object :: bool

type_synonym response = "ustr option list"

record 'w python =
  create :: "'w \<Rightarrow> request \<Rightarrow> (exn + response) \<times> 'w"
  loads :: "ustr \<Rightarrow> exn + json"
  repr :: "json \<Rightarrow> ustr"

text \<open>The state of a run: the world of the judge and the requests sent so far.\<close>

record 'w state =
  world :: 'w
  calls :: "request list"

definition system_prompt :: ustr where
  "system_prompt =
     ascii ''You are an impartial judge evaluating AI model outputs based on strict criteria.''"

definition DEFAULT_JUDGE_MODEL :: ustr where
  "DEFAULT_JUDGE_MODEL = ascii ''gpt-4o''"

subsection \<open>\<open>evaluate_single_item\<close>\<close>

text \<open>Step 1: the three \<open>replace\<close> calls, in the order of the source.\<close>

definition final_prompt :: "(json \<Rightarrow> ustr) \<Rightarrow> dict \<Rightarrow> ustr \<Rightarrow> ustr" where
  "final_prompt other item prompt_template =
     (let user_question = dict_get item (ascii ''question'') (JStr []);
          ref_answer = dict_get item (ascii ''reference_answer'') (JStr []);
          model_ans = dict_get item (ascii ''model_answer'') (JStr [])
      in py_replace
           (py_replace
              (py_replace prompt_template (ascii ''{{question}}'') (py_str other user_question))
              (ascii ''{{reference_answer}}'') (py_str other ref_answer))
           (ascii ''{{model_answer}}'') (py_str other model_ans))"

text \<open>
  Step 2, the body of the \<open>try\<close>: the call, \<open>response.choices[0].message.content\<close>,
  \<open>json.loads\<close> and the two \<open>result_json.get\<close>. Every way it can raise is an \<open>Inl\<close>.
\<close>

definition judge_request :: "ustr \<Rightarrow> ustr \<Rightarrow> request" where
  "judge_request model prompt =
     \<lparr>req_model = model, req_system = system_prompt, req_user = prompt,
      req_temperature = 0, req_json_object = True\<rparr>"

definition judge_try :: "'w python \<Rightarrow> ustr \<Rightarrow> ustr \<Rightarrow> 'w state \<Rightarrow> (exn + dict) \<times> 'w state" where
  "judge_try py model prompt s =
     (let req = judge_request model prompt;
          (r, w') = create py (world s) req;
          s' = \<lparr>world = w', calls = calls s @ [req]\<rparr>
      in case r of
           Inl e \<Rightarrow> (Inl e, s')
         | Inr response \<Rightarrow>
             (case response of
                [] \<Rightarrow> (Inl (Exn IndexError (ascii ''list index out of range'')), s')
              | content # _ \<Rightarrow>
                  (case content of
                     None \<Rightarrow>
                       (Inl (Exn TypeError
                          (ascii ''the JSON object must be str, bytes or bytearray, not NoneType'')), s')
                   | Some result_text \<Rightarrow>
                       (case loads py result_text of
                          Inl e \<Rightarrow> (Inl e, s')
                        | Inr result_json \<Rightarrow>
                            (case result_json of
                               JObj d \<Rightarrow> (Inr d, s')
                             | _ \<Rightarrow> (Inl (no_attribute_get result_json), s'))))))"

definition success_verdict :: "dict \<Rightarrow> dict \<Rightarrow> dict" where
  "success_verdict item result_json =
     [(ascii ''id'', dict_get item (ascii ''id'') JNull),
      (ascii ''task_type'', dict_get item (ascii ''task_type'') JNull),
      (ascii ''score'', dict_get result_json (ascii ''score'') JNull),
      (ascii ''reasoning'', dict_get result_json (ascii ''reasoning'') JNull),
      (ascii ''status'', JStr (ascii ''success''))]"

definition error_verdict :: "dict \<Rightarrow> exn \<Rightarrow> dict" where
  "error_verdict item e =
     [(ascii ''id'', dict_get item (ascii ''id'') JNull),
      (ascii ''task_type'', dict_get item (ascii ''task_type'') JNull),
      (ascii ''score'', JInt 0),
      (ascii ''reasoning'', JStr (ascii ''Evaluation Error: '' @ exn_msg e)),
      (ascii ''status'', JStr (ascii ''error''))]"

definition evaluate_single_item ::
  "'w python \<Rightarrow> dict \<Rightarrow> ustr \<Rightarrow> ustr \<Rightarrow> 'w state \<Rightarrow> dict \<times> 'w state" where
  "evaluate_single_item py item prompt_template model s =
     (case judge_try py model (final_prompt (repr py) item prompt_template) s of
        (Inr result_json, s') \<Rightarrow> (success_verdict item result_json, s')
      | (Inl e, s') \<Rightarrow> (error_verdict item e, s'))"

section \<open>The template parser\<close>

text \<open>
  \<open>str.strip()\<close> and the regular expression's \<open>\s\<close> use the same set of white space
  characters (the code points for which \<open>str.isspace\<close> holds).
\<close>

definition is_space :: "nat \<Rightarrow> bool" where
  "is_space c \<longleftrightarrow>
     (9 \<le> c \<and> c \<le> 13) \<or> (28 \<le> c \<and> c \<le> 32) \<or> c = 133 \<or> c = 160 \<or> c = 5760 \<or>
     (8192 \<le> c \<and> c \<le> 8202) \<or> c = 8232 \<or> c = 8233 \<or> c = 8239 \<or> c = 8287 \<or> c = 12288"

definition strip :: "ustr \<Rightarrow> ustr" where
  "strip s = rev (dropWhile is_space (rev (dropWhile is_space s)))"

text \<open>
  The header pattern \<open>^# type\s+(.+)$\<close> under \<open>re.MULTILINE\<close>, tried at the start of a
  line. \<open>.\<close> is any character but the line feed (10) and \<open>$\<close> holds at the end of the
  text and before a line feed, so \<open>(.+)\<close> runs to the end of its line. \<open>\s+\<close> is greedy
  and gives characters back one at a time: \<open>after_spaces k s\<close> lets it take \<open>k\<close>
  characters of the text \<open>s\<close> that follows \<open># type\<close>, then \<open>k - 1\<close>, down to one.
  The result is the group and the text after the match.
\<close>

fun after_spaces :: "nat \<Rightarrow> ustr \<Rightarrow> (ustr \<times> ustr) option" where
  "after_spaces 0 s = None"
| "after_spaces (Suc k) s =
     (case drop (Suc k) s of
        [] \<Rightarrow> after_spaces k s
      | c # _ \<Rightarrow>
          if c = 10 then after_spaces k s
          else Some (takeWhile (\<lambda>c. c \<noteq> 10) (drop (Suc k) s),
                     dropWhile (\<lambda>c. c \<noteq> 10) (drop (Suc k) s)))"

definition match_header :: "ustr \<Rightarrow> (ustr \<times> ustr) option" where
  "match_header s =
     (if prefix (ascii ''# type'') s
      then after_spaces (length (takeWhile is_space (drop 6 s))) (drop 6 s)
      else None)"

lemma after_spaces_shorter:
  "after_spaces k s = Some (name, rest) \<Longrightarrow> length rest \<le> length s"
proof (induction k)
  case 0
  then show ?case by simp
next
  case (Suc k)
  have "length (dropWhile (\<lambda>c. c \<noteq> 10) (drop (Suc k) s)) \<le> length s"
    using length_dropWhile_le [of "\<lambda>c. c \<noteq> 10" "drop (Suc k) s"] by simp
  with Suc show ?case
    by (auto split: list.splits if_splits)
qed

lemma match_header_shorter:
  assumes "match_header s = Some (name, rest)"
  shows "length rest < length s"
proof -
  from assms have p: "prefix (ascii ''# type'') s"
    and a: "after_spaces (length (takeWhile is_space (drop 6 s))) (drop 6 s) = Some (name, rest)"
    by (auto simp: match_header_def split: if_splits)
  from p have "6 \<le> length s"
    using prefix_length_le [of "ascii ''# type''" s] by (simp add: ascii_def)
  moreover from p have "s \<noteq> []"
    by (auto simp: ascii_def)
  moreover from a have "length rest \<le> length s - 6"
    using after_spaces_shorter [of _ "drop 6 s" name rest] by simp
  ultimately show ?thesis
    by (cases s) auto
qed

text \<open>
  \<open>re.split\<close> with that pattern: the text before the first header, then for every
  header its group and the text up to the next header. \<open>bol\<close> says whether the scan
  stands at the start of a line; \<open>acc\<close> is the text since the last header.
\<close>

function header_split :: "bool \<Rightarrow> ustr \<Rightarrow> ustr \<Rightarrow> ustr list" where
  "header_split bol acc [] = [acc]"
| "header_split bol acc (c # cs) =
     (case (if bol then match_header (c # cs) else None) of
        Some (name, rest) \<Rightarrow> acc # name # header_split False [] rest
      | None \<Rightarrow> header_split (c = 10) (acc @ [c]) cs)"
  by pat_completeness auto
termination
proof (relation "measure (\<lambda>(bol, acc, s). length s)")
  show "wf (measure (\<lambda>(bol, acc, s). length s))" by simp
next
  fix bol acc c cs x name rest
  assume "(if bol then match_header (c # cs) else None) = Some x" and "(name, rest) = x"
  then have "match_header (c # cs) = Some (name, rest)"
    by (simp split: if_splits)
  then show "((False, [], rest), (bol, acc, c # cs)) \<in> measure (\<lambda>(bol, acc, s). length s)"
    using match_header_shorter [of "c # cs" name rest] by simp
next
  fix bol acc c cs
  show "((c = 10, acc @ [c], cs), (bol, acc, c # cs)) \<in> measure (\<lambda>(bol, acc, s). length s)"
    by simp
qed

text \<open>\<open>re.split(r'[\<dots>,]', raw)\<close>: the pieces between commas, U+3001 (12289) or U+002C (44).\<close>

fun split_commas :: "ustr \<Rightarrow> ustr list" where
  "split_commas [] = [[]]"
| "split_commas (c # cs) =
     (if c = 12289 \<or> c = 44 then [] # split_commas cs
      else (case split_commas cs of
              [] \<Rightarrow> [[c]]
            | p # ps \<Rightarrow> (c # p) # ps))"

text \<open>
  The loop over \<open>range(1, len(sections), 2)\<close>, on the sections after the first:
  \<open>sections[i]\<close> is the header's group and \<open>sections[i+1]\<close> its body.
\<close>

definition task_types :: "ustr \<Rightarrow> ustr list" where
  "task_types raw = map strip (split_commas (strip raw))"

fun load_sections :: "ustr list \<Rightarrow> (ustr \<rightharpoonup> ustr) \<Rightarrow> exn + (ustr \<rightharpoonup> ustr)" where
  "load_sections [] prompts = Inr prompts"
| "load_sections [raw] prompts = Inl (Exn IndexError (ascii ''list index out of range''))"
| "load_sections (raw # body # rest) prompts =
     load_sections rest (fold (\<lambda>t m. m(t \<mapsto> strip body)) (task_types raw) prompts)"

definition PROMPT_FILE :: ustr where
  "PROMPT_FILE = ascii ''evaluate prompt.md''"

text \<open>The file system maps a path to the decoded text of the file there.\<close>

definition parse_prompt_file :: "(ustr \<rightharpoonup> ustr) \<Rightarrow> ustr \<Rightarrow> exn + (ustr \<rightharpoonup> ustr)" where
  "parse_prompt_file fs file_path =
     (case fs file_path of
        None \<Rightarrow> Inl (Exn FileNotFoundError (ascii ''Prompt file not found: '' @ file_path))
      | Some content \<Rightarrow> load_sections (tl (header_split True [] content)) Map.empty)"

section \<open>The evaluation driver\<close>

subsection \<open>The loop\<close>

definition skipped_verdict :: "dict \<Rightarrow> dict" where
  "skipped_verdict item =
     [(ascii ''id'', dict_get item (ascii ''id'') JNull),
      (ascii ''error'', JStr (ascii ''Task type not found in prompt file'')),
      (ascii ''status'', JStr (ascii ''skipped''))]"

definition unhashable :: "json \<Rightarrow> exn" where
  "unhashable v = Exn TypeError (ascii ''unhashable type: '' @ [39] @ type_name v @ [39])"

text \<open>
  \<open>key in m\<close> and \<open>m[key]\<close> for a dictionary \<open>m\<close> whose keys are strings: a list or a
  dictionary cannot be hashed and raises; a key that is not a string is equal to no
  key of \<open>m\<close>; a string is compared code point by code point.
\<close>

fun dict_find :: "(ustr \<rightharpoonup> ustr) \<Rightarrow> json \<Rightarrow> exn + ustr option" where
  "dict_find m (JStr k) = Inr (m k)"
| "dict_find m (JArr xs) = Inl (unhashable (JArr xs))"
| "dict_find m (JObj kvs) = Inl (unhashable (JObj kvs))"
| "dict_find m key = Inr None"

text \<open>
  The body of the loop for one element of the input. \<open>item.get\<close> raises on an element
  that is not a dictionary; that exception and the one of an unhashable task type are
  not caught.
\<close>

definition loop_body ::
  "'w python \<Rightarrow> (ustr \<rightharpoonup> ustr) \<Rightarrow> ustr \<Rightarrow> json \<Rightarrow> 'w state \<Rightarrow> exn + dict \<times> 'w state" where
  "loop_body py prompts_map judge_model item s =
     (case item of
        JObj d \<Rightarrow>
          (case dict_find prompts_map (dict_get d (ascii ''task_type'') JNull) of
             Inl e \<Rightarrow> Inl e
           | Inr None \<Rightarrow> Inr (skipped_verdict d, s)
           | Inr (Some template) \<Rightarrow> Inr (evaluate_single_item py d template judge_model s))
      | _ \<Rightarrow> Inl (no_attribute_get item))"

fun main_loop ::
  "'w python \<Rightarrow> (ustr \<rightharpoonup> ustr) \<Rightarrow> ustr \<Rightarrow> json list \<Rightarrow> dict list \<Rightarrow> 'w state
     \<Rightarrow> exn + dict list \<times> 'w state" where
  "main_loop py prompts_map judge_model [] results s = Inr (results, s)"
| "main_loop py prompts_map judge_model (item # items) results s =
     (case loop_body py prompts_map judge_model item s of
        Inl e \<Rightarrow> Inl e
      | Inr (eval_result, s') \<Rightarrow>
          main_loop py prompts_map judge_model items (results @ [eval_result]) s')"

subsection \<open>The statistics\<close>

text \<open>
  A Python number is an \<open>int\<close> or a \<open>float\<close>. \<open>as_number\<close> is the test
  \<open>isinstance(v, (int, float))\<close> together with the value that \<open>sum\<close> adds: \<open>bool\<close> is
  a subclass of \<open>int\<close>, so \<open>True\<close> and \<open>False\<close> pass the test and count as 1 and 0.
\<close>

datatype pynum = PInt int | PFloat rat

fun num_value :: "pynum \<Rightarrow> rat" where
  "num_value (PInt i) = of_int i"
| "num_value (PFloat q) = q"

fun as_number :: "json \<Rightarrow> pynum option" where
  "as_number (JInt i) = Some (PInt i)"
| "as_number (JFloat q) = Some (PFloat q)"
| "as_number (JBool b) = Some (PInt (if b then 1 else 0))"
| "as_number v = None"

text \<open>
  The comprehension on \<open>results\<close>. Where the test holds, \<open>r.get('score')\<close> is not
  \<open>None\<close>, so the key is there and \<open>r['score']\<close> is the same value.
\<close>

fun valid_scores :: "dict list \<Rightarrow> pynum list" where
  "valid_scores [] = []"
| "valid_scores (r # rs) =
     (if dict_get r (ascii ''status'') JNull = JStr (ascii ''success'')
      then (case as_number (dict_get r (ascii ''score'') JNull) of
              Some x \<Rightarrow> x # valid_scores rs
            | None \<Rightarrow> valid_scores rs)
      else valid_scores rs)"

fun py_add :: "pynum \<Rightarrow> pynum \<Rightarrow> pynum" where
  "py_add (PInt a) (PInt b) = PInt (a + b)"
| "py_add a b = PFloat (num_value a + num_value b)"

text \<open>\<open>sum(xs)\<close> starts from the integer 0 and adds from the left.\<close>

definition py_sum :: "pynum list \<Rightarrow> pynum" where
  "py_sum xs = foldl py_add (PInt 0) xs"

definition avg_score :: "dict list \<Rightarrow> pynum" where
  "avg_score results =
     (let valid = valid_scores results
      in if valid \<noteq> [] then PFloat (num_value (py_sum valid) / of_nat (length valid)) else PInt 0)"

text \<open>
  \<open>round(x, ndigits)\<close> rounds to the closest multiple of \<open>10^-ndigits\<close>, and to the even
  one of two that are equally close; an integer is returned as it is.
\<close>

definition round_half_even :: "rat \<Rightarrow> int" where
  "round_half_even x =
     (let f = floor x; d = x - of_int f
      in if d < 1 / 2 then f else if 1 / 2 < d then f + 1 else if even f then f else f + 1)"

fun py_round :: "pynum \<Rightarrow> nat \<Rightarrow> pynum" where
  "py_round (PInt i) ndigits = PInt i"
| "py_round (PFloat q) ndigits = PFloat (of_int (round_half_even (q * 10 ^ ndigits)) / 10 ^ ndigits)"

text \<open>The format \<open>{x:.2f}\<close>: sign, integer digits, a point and two decimals.\<close>

definition format_2f :: "pynum \<Rightarrow> ustr" where
  "format_2f x =
     (let q = num_value x; n = nat (round_half_even (\<bar>q\<bar> * 100))
      in (if q < 0 then ascii ''-'' else []) @ digits (n div 100) @ ascii ''.'' @
         [48 + (n mod 100) div 10, 48 + n mod 10])"

fun json_of_num :: "pynum \<Rightarrow> json" where
  "json_of_num (PInt i) = JInt i"
| "json_of_num (PFloat q) = JFloat q"

subsection \<open>\<open>main\<close>\<close>

text \<open>
  \<open>data\<close> is what \<open>json.load\<close> read from the input file. \<open>len(data)\<close> raises on a
  value without a length; iterating a dictionary gives its keys and iterating a
  string its characters.
\<close>

fun py_iter :: "json \<Rightarrow> exn + json list" where
  "py_iter (JArr xs) = Inr xs"
| "py_iter (JObj kvs) = Inr (map (\<lambda>(k, v). JStr k) kvs)"
| "py_iter (JStr s) = Inr (map (\<lambda>c. JStr [c]) s)"
| "py_iter v =
     Inl (Exn TypeError (ascii ''object of type '' @ [39] @ type_name v @ [39] @ ascii '' has no len()''))"

definition output_data :: "ustr \<Rightarrow> nat \<Rightarrow> dict list \<Rightarrow> json" where
  "output_data judge_model total_items results =
     JObj [(ascii ''meta'',
            JObj [(ascii ''judge_model'', JStr judge_model),
                  (ascii ''total_items'', JInt (int total_items)),
                  (ascii ''evaluated_items'', JInt (int (length (valid_scores results)))),
                  (ascii ''average_score'', json_of_num (py_round (avg_score results) 4))]),
           (ascii ''details'', JArr (map JObj results))]"

text \<open>
  A run ends in one of three ways: the templates could not be loaded (the error is
  printed and \<open>main\<close> returns), an exception escaped, or the report was written.
  \<open>Done\<close> carries the report given to \<open>json.dump\<close>, the average as the last summary
  line prints it, and the final state.
\<close>

datatype 'w outcome =
    Aborted exn
  | Crashed exn
  | Done (report: json) (printed_average: ustr) (final: "'w state")

definition main ::
  "'w python \<Rightarrow> (ustr \<rightharpoonup> ustr) \<Rightarrow> ustr \<Rightarrow> json \<Rightarrow> 'w state \<Rightarrow> 'w outcome" where
  "main py fs judge_model data s =
     (case parse_prompt_file fs PROMPT_FILE of
        Inl e \<Rightarrow> Aborted e
      | Inr prompts_map \<Rightarrow>
          (case py_iter data of
             Inl e \<Rightarrow> Crashed e
           | Inr items \<Rightarrow>
               (case main_loop py prompts_map judge_model items [] s of
                  Inl e \<Rightarrow> Crashed e
                | Inr (results, s') \<Rightarrow>
                    Done (output_data judge_model (length items) results)
                         (format_2f (avg_score results)) s')))"

section \<open>Reading a report\<close>

text \<open>\<open>v.get(k)\<close> on a value read back from JSON, and the parts of a report.\<close>

fun json_get :: "json \<Rightarrow> ustr \<Rightarrow> json" where
  "json_get (JObj d) k = dict_get d k JNull"
| "json_get v k = JNull"

fun the_dict :: "json \<Rightarrow> dict" where
  "the_dict (JObj d) = d"
| "the_dict v = []"

definition report_meta :: "json \<Rightarrow> ustr \<Rightarrow> json" where
  "report_meta rep k = json_get (json_get rep (ascii ''meta'')) k"

definition report_details :: "json \<Rightarrow> dict list" where
  "report_details rep = (case json_get rep (ascii ''details'') of JArr vs \<Rightarrow> map the_dict vs | _ \<Rightarrow> [])"

definition status_of :: "dict \<Rightarrow> json" where
  "status_of r = dict_get r (ascii ''status'') JNull"




text \<open>Whether the loop sends an item to the judge.\<close>

fun has_template :: "(ustr \<rightharpoonup> ustr) \<Rightarrow> json \<Rightarrow> bool" where
  "has_template prompts_map item =
     (case dict_find prompts_map (json_get item (ascii ''task_type'')) of
        Inr (Some template) \<Rightarrow> True
      | _ \<Rightarrow> False)"

text \<open>
  The verdicts that enter the average: status success and a score that is a number for
  \<open>isinstance(score, (int, float))\<close>, which is an integer, a float or a boolean.
  \<open>score_value\<close> is the number such a score stands for and \<open>arithmetic_mean\<close> the
  mean of a list of numbers.
\<close>

definition counted :: "dict \<Rightarrow> bool" where
  "counted r \<longleftrightarrow>
     status_of r = JStr (ascii ''success'') \<and> as_number (dict_get r (ascii ''score'') JNull) \<noteq> None"

definition score_value :: "dict \<Rightarrow> rat" where
  "score_value r =
     (case as_number (dict_get r (ascii ''score'') JNull) of Some x \<Rightarrow> num_value x | None \<Rightarrow> 0)"

definition arithmetic_mean :: "rat list \<Rightarrow> rat" where
  "arithmetic_mean xs = sum_list xs / of_nat (length xs)"

section \<open>Templates and prompt files, as the claims speak of them\<close>















section \<open>The scenario of the specification\<close>

text \<open>
  Two items: one of task type A, which the prompt file defines and for which the judge
  answers with score 4 and reasoning ok; one of task type Z, which it does not define.
  A second judge is unreachable: every call raises.
\<close>

definition scenario_template :: ustr where
  "scenario_template = ascii ''Q: {{question}} R: {{reference_answer}} M: {{model_answer}}''"

definition scenario_file :: ustr where
  "scenario_file = ascii ''# type A'' @ [10] @ scenario_template"

definition scenario_fs :: "ustr \<rightharpoonup> ustr" where
  "scenario_fs = [PROMPT_FILE \<mapsto> scenario_file]"

definition scenario_prompts :: "ustr \<rightharpoonup> ustr" where
  "scenario_prompts = [ascii ''A'' \<mapsto> scenario_template]"

definition scenario_reply :: ustr where
  "scenario_reply =
     ascii ''{'' @ [34] @ ascii ''score'' @ [34] @ ascii '': 4, '' @ [34] @ ascii ''reasoning'' @ [34] @
     ascii '': '' @ [34] @ ascii ''ok'' @ [34] @ ascii ''}''"

definition scenario_result :: dict where
  "scenario_result = [(ascii ''score'', JInt 4), (ascii ''reasoning'', JStr (ascii ''ok''))]"

definition scenario_loads :: "ustr \<Rightarrow> exn + json" where
  "scenario_loads text =
     (if text = scenario_reply then Inr (JObj scenario_result)
      else Inl (Exn OtherException (ascii ''Expecting value'')))"

definition scenario_judge :: "nat python" where
  "scenario_judge =
     \<lparr>create = (\<lambda>w req. (Inr [Some scenario_reply], Suc w)),
      loads = scenario_loads,
      repr = (\<lambda>v. [])\<rparr>"

definition unreachable_judge :: "nat python" where
  "unreachable_judge =
     \<lparr>create = (\<lambda>w req. (Inl (Exn OtherException (ascii ''Connection error.'')), Suc w)),
      loads = scenario_loads,
      repr = (\<lambda>v. [])\<rparr>"

definition item_A :: dict where
  "item_A =
     [(ascii ''id'', JInt 1),
      (ascii ''task_type'', JStr (ascii ''A'')),
      (ascii ''question'', JStr (ascii ''q'')),
      (ascii ''reference_answer'', JStr (ascii ''r'')),
      (ascii ''model_answer'', JStr (ascii ''m''))]"

definition item_Z :: dict where
  "item_Z =
     [(ascii ''id'', JInt 2),
      (ascii ''task_type'', JStr (ascii ''Z'')),
      (ascii ''question'', JStr (ascii ''q'')),
      (ascii ''reference_answer'', JStr (ascii ''r'')),
      (ascii ''model_answer'', JStr (ascii ''m''))]"





definition scenario_start :: "nat state" where
  "scenario_start = \<lparr>world = 0, calls = []\<rparr>"







section \<open>Verdicts and the loop: auxiliary facts\<close>

subsection \<open>Verdicts\<close>

lemma success_verdict_fields:
  "status_of (success_verdict item d) = JStr (ascii ''success'')"
  "dict_get (success_verdict item d) (ascii ''id'') JNull = dict_get item (ascii ''id'') JNull"
  "dict_get (success_verdict item d) (ascii ''task_type'') JNull = dict_get item (ascii ''task_type'') JNull"
  "dict_get (success_verdict item d) (ascii ''score'') JNull = dict_get d (ascii ''score'') JNull"
  "dict_get (success_verdict item d) (ascii ''reasoning'') JNull = dict_get d (ascii ''reasoning'') JNull"
  by (simp_all add: success_verdict_def status_of_def dict_get_def ascii_def)

lemma error_verdict_fields:
  "status_of (error_verdict item e) = JStr (ascii ''error'')"
  "dict_get (error_verdict item e) (ascii ''id'') JNull = dict_get item (ascii ''id'') JNull"
  "dict_get (error_verdict item e) (ascii ''task_type'') JNull = dict_get item (ascii ''task_type'') JNull"
  "dict_get (error_verdict item e) (ascii ''score'') JNull = JInt 0"
  "dict_get (error_verdict item e) (ascii ''reasoning'') JNull =
     JStr (ascii ''Evaluation Error: '' @ exn_msg e)"
  by (simp_all add: error_verdict_def status_of_def dict_get_def ascii_def)

lemma skipped_verdict_fields:
  "status_of (skipped_verdict item) = JStr (ascii ''skipped'')"
  "dict_get (skipped_verdict item) (ascii ''id'') JNull = dict_get item (ascii ''id'') JNull"
  "dict_get (skipped_verdict item) (ascii ''error'') JNull =
     JStr (ascii ''Task type not found in prompt file'')"
  "map_of (skipped_verdict item) (ascii ''task_type'') = None"
  "map_of (skipped_verdict item) (ascii ''score'') = None"
  by (simp_all add: skipped_verdict_def status_of_def dict_get_def ascii_def)

lemma judge_try_calls:
  "judge_try py model prompt s = (r, s') \<Longrightarrow> calls s' = calls s @ [judge_request model prompt]"
  by (auto simp: judge_try_def Let_def
      split: prod.splits sum.splits list.splits option.splits json.splits)

lemma judge_try_call_raises:
  assumes "create py (world s) (judge_request model prompt) = (Inl e, w')"
  shows "judge_try py model prompt s =
           (Inl e, \<lparr>world = w', calls = calls s @ [judge_request model prompt]\<rparr>)"
  using assms by (simp add: judge_try_def)

lemma judge_try_parse_raises:
  assumes "create py (world s) (judge_request model prompt) = (Inr (Some result_text # choices), w')"
    and "loads py result_text = Inl e"
  shows "judge_try py model prompt s =
           (Inl e, \<lparr>world = w', calls = calls s @ [judge_request model prompt]\<rparr>)"
  using assms by (simp add: judge_try_def)

lemma judge_try_not_object:
  assumes "create py (world s) (judge_request model prompt) = (Inr (Some result_text # choices), w')"
    and "loads py result_text = Inr result_json"
    and "\<forall>d. result_json \<noteq> JObj d"
  shows "judge_try py model prompt s =
           (Inl (no_attribute_get result_json),
            \<lparr>world = w', calls = calls s @ [judge_request model prompt]\<rparr>)"
  using assms by (cases result_json) (simp_all add: judge_try_def)

lemma evaluate_single_item_cases:
  obtains (success) d s' where
      "judge_try py model (final_prompt (repr py) item template) s = (Inr d, s')"
      "evaluate_single_item py item template model s = (success_verdict item d, s')"
  | (error) e s' where
      "judge_try py model (final_prompt (repr py) item template) s = (Inl e, s')"
      "evaluate_single_item py item template model s = (error_verdict item e, s')"
proof -
  obtain r s1 where j: "judge_try py model (final_prompt (repr py) item template) s = (r, s1)"
    by (cases "judge_try py model (final_prompt (repr py) item template) s")
  show thesis
  proof (cases r)
    case (Inl e)
    with j show thesis by (intro error [of e s1]) (simp_all add: evaluate_single_item_def)
  next
    case (Inr d)
    with j show thesis by (intro success [of d s1]) (simp_all add: evaluate_single_item_def)
  qed
qed

lemma evaluate_single_item_calls:
  assumes "evaluate_single_item py item template model s = (v, s')"
  shows "calls s' = calls s @ [judge_request model (final_prompt (repr py) item template)]"
  using assms
  by (cases rule: evaluate_single_item_cases [of py model item template s])
     (auto dest: judge_try_calls)

lemma evaluate_single_item_verdict:
  assumes "evaluate_single_item py item template model s = (v, s')"
  shows "dict_get v (ascii ''id'') JNull = dict_get item (ascii ''id'') JNull \<and>
         dict_get v (ascii ''task_type'') JNull = dict_get item (ascii ''task_type'') JNull \<and>
         (status_of v = JStr (ascii ''success'') \<or> status_of v = JStr (ascii ''error''))"
  using assms
  by (cases rule: evaluate_single_item_cases [of py model item template s])
     (auto simp: success_verdict_fields error_verdict_fields)

subsection \<open>The loop\<close>



lemma loop_body_call_count:
  assumes "loop_body py prompts_map judge_model item s = Inr (r, s')"
  shows "length (calls s') = length (calls s) + (if has_template prompts_map item then 1 else 0)"
proof -
  from assms obtain d where item: "item = JObj d"
    by (cases item) (auto simp: loop_body_def)
  from assms item obtain found
    where f: "dict_find prompts_map (dict_get d (ascii ''task_type'') JNull) = Inr found"
    by (cases "dict_find prompts_map (dict_get d (ascii ''task_type'') JNull)")
       (auto simp: loop_body_def)
  show ?thesis
  proof (cases found)
    case None
    with assms item f show ?thesis by (simp add: loop_body_def)
  next
    case (Some template)
    with assms item f have "evaluate_single_item py d template judge_model s = (r, s')"
      by (simp add: loop_body_def)
    from evaluate_single_item_calls [OF this] item f Some show ?thesis by simp
  qed
qed

lemma main_loop_call_count:
  "main_loop py prompts_map judge_model items results s = Inr (rs, s') \<Longrightarrow>
   length (calls s') = length (calls s) + length (filter (has_template prompts_map) items)"
proof (induction items arbitrary: results s)
  case Nil
  then show ?case by simp
next
  case (Cons item items)
  from Cons.prems obtain r s1 where b: "loop_body py prompts_map judge_model item s = Inr (r, s1)"
      and l: "main_loop py prompts_map judge_model items (results @ [r]) s1 = Inr (rs, s')"
    by (auto split: sum.splits)
  from Cons.IH [OF l] loop_body_call_count [OF b] show ?case
    by simp
qed

subsection \<open>The parser and the report\<close>




lemma report_details_output_data: "report_details (output_data judge_model n results) = results"
proof -
  have "map the_dict (map JObj results) = results"
    by (induction results) auto
  then show ?thesis
    by (simp add: report_details_def output_data_def dict_get_def ascii_def)
qed

lemma report_meta_output_data:
  "report_meta (output_data judge_model n results) (ascii ''judge_model'') = JStr judge_model"
  "report_meta (output_data judge_model n results) (ascii ''total_items'') = JInt (int n)"
  "report_meta (output_data judge_model n results) (ascii ''evaluated_items'') =
     JInt (int (length (valid_scores results)))"
  "report_meta (output_data judge_model n results) (ascii ''average_score'') =
     json_of_num (py_round (avg_score results) 4)"
  by (simp_all add: report_meta_def output_data_def dict_get_def ascii_def)


lemma scenario_parse: "parse_prompt_file scenario_fs PROMPT_FILE = Inr scenario_prompts"
  by (simp add: parse_prompt_file_def scenario_fs_def scenario_file_def scenario_prompts_def
      scenario_template_def match_header_def task_types_def strip_def is_space_def ascii_def)

subsection \<open>The statistics\<close>

lemma num_value_py_add: "num_value (py_add a b) = num_value a + num_value b"
  by (cases a; cases b) simp_all

lemma num_value_foldl_py_add:
  "num_value (foldl py_add a xs) = num_value a + sum_list (map num_value xs)"
  by (induction xs arbitrary: a) (simp_all add: num_value_py_add)

lemma num_value_py_sum: "num_value (py_sum xs) = sum_list (map num_value xs)"
  by (simp add: py_sum_def num_value_foldl_py_add)

lemma valid_scores_counted:
  "map num_value (valid_scores results) = map score_value (filter counted results)"
  by (induction results) (auto simp: counted_def score_value_def status_of_def split: option.splits)

lemma length_valid_scores: "length (valid_scores results) = length (filter counted results)"
  using valid_scores_counted [of results, THEN arg_cong, of length] by simp

lemma valid_scores_empty: "valid_scores results = [] \<longleftrightarrow> filter counted results = []"
  using length_valid_scores [of results] by (metis length_0_conv)



lemma avg_score_mean:
  "avg_score results =
     (if filter counted results = [] then PInt 0
      else PFloat (arithmetic_mean (map score_value (filter counted results))))"
  by (simp add: avg_score_def Let_def valid_scores_empty num_value_py_sum valid_scores_counted
      arithmetic_mean_def length_valid_scores)




subsection \<open>The runs of the scenario\<close>

lemma item_A_mapped:
  "dict_find scenario_prompts (dict_get item_A (ascii ''task_type'') JNull) = Inr (Some scenario_template)"
  by (simp add: scenario_prompts_def scenario_template_def item_A_def dict_get_def ascii_def)

lemma item_Z_unmapped:
  "dict_find scenario_prompts (dict_get item_Z (ascii ''task_type'') JNull) = Inr None"
  by (simp add: scenario_prompts_def item_Z_def dict_get_def ascii_def)


lemma unreachable_judge_raises:
  "judge_try unreachable_judge model prompt s =
     (Inl (Exn OtherException (ascii ''Connection error.'')),
      \<lparr>world = Suc (world s), calls = calls s @ [judge_request model prompt]\<rparr>)"
  by (simp add: judge_try_def unreachable_judge_def)


lemma scenario_valid_scores:
  "valid_scores [success_verdict item_A scenario_result, skipped_verdict item_Z] = [PInt 4]"
  using success_verdict_fields(1,4) [of item_A scenario_result] skipped_verdict_fields(1) [of item_Z]
  by (simp add: status_of_def) (simp add: scenario_result_def dict_get_def ascii_def)



lemma unreachable_loop:
  "main_loop unreachable_judge scenario_prompts model [JObj item_A, JObj item_Z] [] scenario_start =
     Inr ([error_verdict item_A (Exn OtherException (ascii ''Connection error.'')),
           skipped_verdict item_Z],
          \<lparr>world = 1, calls = [judge_request model (final_prompt (\<lambda>v. []) item_A scenario_template)]\<rparr>)"
  by (simp add: loop_body_def item_A_mapped item_Z_unmapped evaluate_single_item_def
      unreachable_judge_raises scenario_start_def) (simp add: unreachable_judge_def)


lemma counted_success:
  "counted (success_verdict item d) \<longleftrightarrow> as_number (dict_get d (ascii ''score'') JNull) \<noteq> None"
  by (simp add: counted_def success_verdict_fields)

lemma not_counted_error: "\<not> counted (error_verdict item e)"
  by (simp add: counted_def error_verdict_fields ascii_def)

lemma not_counted_skipped: "\<not> counted (skipped_verdict item)"
  by (simp add: counted_def skipped_verdict_fields ascii_def)

lemma boolean_score_is_counted:
  "counted (success_verdict item [(ascii ''score'', JBool True)]) \<and>
   avg_score [success_verdict item [(ascii ''score'', JBool True)]] = PFloat 1"
proof -
  have "as_number (dict_get [(ascii ''score'', JBool True)] (ascii ''score'') JNull) = Some (PInt 1)"
    by (simp add: dict_get_def)
  moreover have "dict_get (success_verdict item [(ascii ''score'', JBool True)]) (ascii ''status'') JNull =
      JStr (ascii ''success'')"
    using success_verdict_fields(1) [of item "[(ascii ''score'', JBool True)]"]
    by (simp add: status_of_def)
  ultimately show ?thesis
    by (simp add: counted_success avg_score_def py_sum_def success_verdict_fields)
qed



lemma unreachable_run:
  "main unreachable_judge scenario_fs DEFAULT_JUDGE_MODEL (JArr [JObj item_A, JObj item_Z]) scenario_start =
     Done (output_data DEFAULT_JUDGE_MODEL 2
             [error_verdict item_A (Exn OtherException (ascii ''Connection error.'')), skipped_verdict item_Z])
          (format_2f (avg_score
             [error_verdict item_A (Exn OtherException (ascii ''Connection error.'')), skipped_verdict item_Z]))
          \<lparr>world = 1,
           calls = [judge_request DEFAULT_JUDGE_MODEL (final_prompt (\<lambda>v. []) item_A scenario_template)]\<rparr>"
  by (simp add: main_def scenario_parse unreachable_loop numeral_2_eq_2 del: main_loop.simps)


lemma empty_run:
  "main_loop py prompts_map judge_model [] [] s = Inr ([], s)"
  by simp


lemma format_2f_zero: "format_2f (PInt 0) = ascii ''0.00''"
  by code_simp

subsection \<open>Replacing tokens\<close>





















subsection \<open>Headers\<close>








lemma split_commas_nonempty: "split_commas a \<noteq> []"
  by (induction a) (auto split: list.splits)

lemma split_commas_comma:
  "c = 12289 \<or> c = 44 \<Longrightarrow> split_commas (a @ c # b) = split_commas a @ split_commas b"
  using split_commas_nonempty by (induction a) (auto split: list.splits)

lemma split_commas_no_comma:
  "12289 \<notin> set a \<Longrightarrow> 44 \<notin> set a \<Longrightarrow> split_commas a = [a]"
  by (induction a) auto




section \<open>The claims\<close>

subsection \<open>One verdict for every item\<close>



subsection \<open>Failures of the judge\<close>

text \<open>
  Claim C3. Whenever the body of the \<open>try\<close> raises (the call itself, an empty list of
  choices, a missing content, \<open>json.loads\<close>, or a parsed value that is no dictionary),
  \<open>evaluate_single_item\<close> returns a verdict with status error, score 0 and the
  reasoning \<open>Evaluation Error: \<close> followed by the text of the exception, which is not
  empty; and the loop goes on with the next item. That a raising call, a reply that
  does not parse and a reply that is no JSON object are such failures is
  \<open>judge_try_call_raises\<close>, \<open>judge_try_parse_raises\<close> and \<open>judge_try_not_object\<close>.
\<close>

theorem judge_failure_is_error_verdict:
  assumes "judge_try py judge_model (final_prompt (repr py) item template) s = (Inl e, s')"
    and "dict_find prompts_map (dict_get item (ascii ''task_type'') JNull) = Inr (Some template)"
  shows "evaluate_single_item py item template judge_model s = (error_verdict item e, s') \<and>
         status_of (error_verdict item e) = JStr (ascii ''error'') \<and>
         dict_get (error_verdict item e) (ascii ''score'') JNull = JInt 0 \<and>
         dict_get (error_verdict item e) (ascii ''reasoning'') JNull =
           JStr (ascii ''Evaluation Error: '' @ exn_msg e) \<and>
         ascii ''Evaluation Error: '' @ exn_msg e \<noteq> [] \<and>
         main_loop py prompts_map judge_model (JObj item # items) results s =
           main_loop py prompts_map judge_model items (results @ [error_verdict item e]) s'"
proof -
  from assms(1) have v: "evaluate_single_item py item template judge_model s = (error_verdict item e, s')"
    by (simp add: evaluate_single_item_def)
  with assms(2) have "loop_body py prompts_map judge_model (JObj item) s = Inr (error_verdict item e, s')"
    by (simp add: loop_body_def)
  then have "main_loop py prompts_map judge_model (JObj item # items) results s =
      main_loop py prompts_map judge_model items (results @ [error_verdict item e]) s'"
    by simp
  moreover have "ascii ''Evaluation Error: '' @ exn_msg e \<noteq> []"
    by (simp add: ascii_def)
  ultimately show ?thesis
    using v by (simp add: error_verdict_fields)
qed

theorem judge_failure_is_error_verdict_witness:
  "evaluate_single_item unreachable_judge item_A
       scenario_template
       DEFAULT_JUDGE_MODEL scenario_start =
     (error_verdict item_A (Exn OtherException (ascii ''Connection error.'')),
      \<lparr>world = 1, calls = [judge_request DEFAULT_JUDGE_MODEL
         (final_prompt (repr unreachable_judge) item_A
            scenario_template)]\<rparr>) \<and>
   dict_get (error_verdict item_A (Exn OtherException (ascii ''Connection error.'')))
       (ascii ''reasoning'') JNull =
     JStr (ascii ''Evaluation Error: Connection error.'') \<and>
   main_loop unreachable_judge scenario_prompts DEFAULT_JUDGE_MODEL [JObj item_A, JObj item_Z] []
       scenario_start =
     main_loop unreachable_judge scenario_prompts DEFAULT_JUDGE_MODEL [JObj item_Z]
       [error_verdict item_A (Exn OtherException (ascii ''Connection error.''))]
       \<lparr>world = 1, calls = [judge_request DEFAULT_JUDGE_MODEL
         (final_prompt (repr unreachable_judge) item_A
            scenario_template)]\<rparr>"
proof -
  let ?template = scenario_template
  let ?e = "Exn OtherException (ascii ''Connection error.'')"
  let ?s' = "\<lparr>world = 1, calls = [judge_request DEFAULT_JUDGE_MODEL
         (final_prompt (repr unreachable_judge) item_A ?template)]\<rparr>"
  have raises: "judge_try unreachable_judge DEFAULT_JUDGE_MODEL
      (final_prompt (repr unreachable_judge) item_A ?template) scenario_start = (Inl ?e, ?s')"
    by (simp add: judge_try_def unreachable_judge_def scenario_start_def)
  have mapped: "dict_find scenario_prompts (dict_get item_A (ascii ''task_type'') JNull) =
      Inr (Some ?template)"
    by (simp add: scenario_prompts_def item_A_def dict_get_def ascii_def)
  from judge_failure_is_error_verdict [OF raises mapped, of "[JObj item_Z]" "[]"]
  show ?thesis
    by (simp add: ascii_def)
qed

subsection \<open>Task types without a template\<close>

text \<open>
  Claim C4. When the task type of an item is not a key of the template mapping (a string
  is a key only when it is equal to one, code point by code point), the loop produces
  for it the verdict with status skipped and the error text
  \<open>Task type not found in prompt file\<close>, and the state, with its list of requests sent
  to the judge, is the one before the item: no call is made. Over a whole run the
  number of calls is the number of items that have a template (\<open>main_loop_call_count\<close>).
\<close>

theorem unmapped_task_type_is_skipped:
  assumes "dict_find prompts_map (dict_get item (ascii ''task_type'') JNull) = Inr None"
  shows "loop_body py prompts_map judge_model (JObj item) s = Inr (skipped_verdict item, s) \<and>
         status_of (skipped_verdict item) = JStr (ascii ''skipped'') \<and>
         dict_get (skipped_verdict item) (ascii ''error'') JNull =
           JStr (ascii ''Task type not found in prompt file'') \<and>
         calls (snd (projr (loop_body py prompts_map judge_model (JObj item) s))) = calls s"
  using assms by (simp add: loop_body_def skipped_verdict_fields)

theorem unmapped_task_type_is_skipped_witness:
  "loop_body scenario_judge scenario_prompts DEFAULT_JUDGE_MODEL (JObj item_Z) scenario_start =
     Inr (skipped_verdict item_Z, scenario_start) \<and>
   calls (snd (projr (loop_body scenario_judge scenario_prompts DEFAULT_JUDGE_MODEL (JObj item_Z)
     scenario_start))) = [] \<and>
   loop_body scenario_judge scenario_prompts DEFAULT_JUDGE_MODEL
       (JObj [(ascii ''id'', JInt 3), (ascii ''task_type'', JStr (ascii ''a''))]) scenario_start =
     Inr (skipped_verdict [(ascii ''id'', JInt 3), (ascii ''task_type'', JStr (ascii ''a''))],
          scenario_start)"
proof -
  have upper: "dict_find scenario_prompts (dict_get item_Z (ascii ''task_type'') JNull) = Inr None"
    by (simp add: scenario_prompts_def item_Z_def dict_get_def ascii_def)
  have lower: "dict_find scenario_prompts
      (dict_get [(ascii ''id'', JInt 3), (ascii ''task_type'', JStr (ascii ''a''))]
         (ascii ''task_type'') JNull) = Inr None"
    by (simp add: scenario_prompts_def dict_get_def ascii_def)
  from unmapped_task_type_is_skipped [OF upper, of scenario_judge DEFAULT_JUDGE_MODEL scenario_start]
    unmapped_task_type_is_skipped [OF lower, of scenario_judge DEFAULT_JUDGE_MODEL scenario_start]
  show ?thesis
    by (simp add: scenario_start_def)
qed

subsection \<open>The id and the task type of a verdict\<close>

lemma judged_verdict_keeps_id_and_task_type:
  assumes "loop_body py prompts_map judge_model (JObj item) s = Inr (r, s')"
  shows "dict_get r (ascii ''id'') JNull = dict_get item (ascii ''id'') JNull \<and>
         (status_of r \<noteq> JStr (ascii ''skipped'') \<longrightarrow>
            dict_get r (ascii ''task_type'') JNull = dict_get item (ascii ''task_type'') JNull)"
proof (cases "dict_find prompts_map (dict_get item (ascii ''task_type'') JNull)")
  case (Inl e)
  with assms show ?thesis by (simp add: loop_body_def)
next
  case (Inr found)
  show ?thesis
  proof (cases found)
    case None
    with assms Inr show ?thesis
      by (auto simp: loop_body_def skipped_verdict_fields)
  next
    case (Some template)
    with assms Inr have "evaluate_single_item py item template judge_model s = (r, s')"
      by (simp add: loop_body_def)
    from evaluate_single_item_verdict [OF this] show ?thesis by simp
  qed
qed

text \<open>
  Claim C5. The verdicts with status success and error carry the id and the task type of
  their item (\<open>judged_verdict_keeps_id_and_task_type\<close>) and the skipped verdict carries
  the id. The skipped verdict has no \<open>task_type\<close> key: for the item of task type Z of
  the scenario, reading the task type of its verdict gives \<open>None\<close>, not Z.
\<close>

theorem skipped_verdict_has_no_task_type:
  "loop_body py scenario_prompts judge_model (JObj item_Z) s = Inr (skipped_verdict item_Z, s) \<and>
   dict_get item_Z (ascii ''task_type'') JNull = JStr (ascii ''Z'') \<and>
   map_of (skipped_verdict item_Z) (ascii ''task_type'') = None \<and>
   dict_get (skipped_verdict item_Z) (ascii ''task_type'') JNull = JNull"
proof -
  have "dict_get item_Z (ascii ''task_type'') JNull = JStr (ascii ''Z'')"
    by (simp add: item_Z_def dict_get_def ascii_def)
  moreover have "scenario_prompts (ascii ''Z'') = None"
    by (simp add: scenario_prompts_def ascii_def)
  moreover have "dict_get (skipped_verdict item_Z) (ascii ''task_type'') JNull = JNull"
    by (simp add: dict_get_def skipped_verdict_fields)
  ultimately show ?thesis
    by (simp add: loop_body_def skipped_verdict_fields)
qed

subsection \<open>The average score\<close>




subsection \<open>The shape of the report\<close>



subsection \<open>No score to average\<close>

text \<open>
  Claim C9. When the loop has finished and none of its verdicts has status success with
  a numeric score, the run ends with a report, its \<open>average_score\<close> is the integer 0
  and the summary prints 0.00: there is no division. The witness is the run on the
  empty input and the run in which one item fails and the other is skipped.
\<close>

theorem no_counted_verdict_gives_zero:
  assumes "parse_prompt_file fs PROMPT_FILE = Inr prompts_map"
    and "py_iter data = Inr items"
    and "main_loop py prompts_map judge_model items [] s = Inr (results, s')"
    and "\<forall>r \<in> set results. \<not> counted r"
  shows "\<exists>rep. main py fs judge_model data s = Done rep (ascii ''0.00'') s' \<and>
           report_details rep = results \<and>
           report_meta rep (ascii ''average_score'') = JInt 0"
proof -
  from assms(4) have "filter counted results = []"
    by (simp add: filter_empty_conv)
  then have zero: "avg_score results = PInt 0"
    by (simp add: avg_score_mean)
  from assms(1-3) have "main py fs judge_model data s =
      Done (output_data judge_model (length items) results) (format_2f (avg_score results)) s'"
    by (simp add: main_def)
  with zero show ?thesis
    by (simp add: format_2f_zero report_details_output_data report_meta_output_data)
qed

theorem no_counted_verdict_gives_zero_witness:
  "(\<exists>rep. main scenario_judge scenario_fs DEFAULT_JUDGE_MODEL (JArr []) scenario_start =
       Done rep (ascii ''0.00'') scenario_start \<and>
     report_details rep = [] \<and>
     report_meta rep (ascii ''average_score'') = JInt 0) \<and>
   (\<exists>rep. main unreachable_judge scenario_fs DEFAULT_JUDGE_MODEL (JArr [JObj item_A, JObj item_Z])
         scenario_start =
       Done rep (ascii ''0.00'')
         \<lparr>world = 1,
          calls = [judge_request DEFAULT_JUDGE_MODEL (final_prompt (\<lambda>v. []) item_A scenario_template)]\<rparr> \<and>
     report_details rep =
       [error_verdict item_A (Exn OtherException (ascii ''Connection error.'')), skipped_verdict item_Z] \<and>
     report_meta rep (ascii ''average_score'') = JInt 0)"
proof -
  have none: "\<forall>r \<in> set ([] :: dict list). \<not> counted r"
    by simp
  have failed: "\<forall>r \<in> set [error_verdict item_A (Exn OtherException (ascii ''Connection error.'')),
      skipped_verdict item_Z]. \<not> counted r"
    by (simp add: not_counted_error not_counted_skipped)
  have arr: "py_iter (JArr xs) = Inr xs" for xs
    by simp
  from no_counted_verdict_gives_zero [OF scenario_parse arr empty_run none]
    no_counted_verdict_gives_zero [OF scenario_parse arr unreachable_loop failed]
  show ?thesis
    by blast
qed

subsection \<open>Rounding\<close>




subsection \<open>The rendered prompt\<close>




subsection \<open>The template mapping\<close>





end
